theory Spec2Isabelle
  imports Main
begin

section \<open>Data model\<close>

text \<open>
  The popup widget plugin of the editor (\<^verbatim>\<open>plugins/popupWidget.ts\<close>) and the
  \<^verbatim>\<open>addWidget\<close> method of the WYSIWYG editor (\<^verbatim>\<open>wysiwyg/wwEditor.ts\<close>).

  DOM elements are references; a reference is a natural number. Document positions and
  pixel coordinates are JavaScript numbers that hold integers here, so they are \<open>int\<close>.
\<close>

type_synonym Elem = nat

text \<open>
  Modelled from the spec: the type \<^verbatim>\<open>WidgetStyle\<close> is imported from the type
  declarations \<^verbatim>\<open>@t/editor\<close>, which are not part of the sources at hand. The spec
  describes a two-valued placement hint, and the code compares it with the string
  \<^verbatim>\<open>'bottom'\<close> only: \<open>Bottom\<close> places the widget below the anchor line, \<open>Top\<close> above.
\<close>

datatype WidgetStyle = Top | Bottom

record Widget =
  node :: Elem
  style :: WidgetStyle
  pos :: int

text \<open>
  What \<^verbatim>\<open>pluginKey.getState\<close> and \<^verbatim>\<open>tr.getMeta\<close> can give back: \<^verbatim>\<open>null\<close>,
  \<^verbatim>\<open>undefined\<close> or a widget object. The first two are falsy in \<^verbatim>\<open>if (widget)\<close>.
\<close>

datatype WidgetValue = Null | Undefined | WidgetObj Widget

record Selection =
  sel_from :: int
  sel_to :: int

record Transaction =
  tr_selection :: Selection
  meta :: "string \<rightharpoonup> Widget"

record EditorState =
  selection :: Selection
  widgetState :: WidgetValue

datatype error = NotFoundError | RangeError

record Coords =
  c_top :: int
  c_left :: int
  c_bottom :: int

text \<open>
  The part of an \<^verbatim>\<open>EditorView\<close> that \<^verbatim>\<open>update\<close> reads: its current state and the
  lookup from a document position to screen coordinates, which throws for a position it
  cannot resolve.
\<close>

record EditorView =
  state :: EditorState
  coordsAtPos :: "int \<Rightarrow> error + Coords"

text \<open>
  Everything the plugin view mutates: its own field \<^verbatim>\<open>popup\<close>, the children of
  \<^verbatim>\<open>document.body\<close>, the inline style of each element, the registration of
  \<^verbatim>\<open>removeWidget\<close> as a \<^verbatim>\<open>blur\<close> listener of \<^verbatim>\<open>view.dom\<close>, and whether the view has
  the input focus. \<open>clientHeight\<close> is the height the layout gives an attached element;
  the plugin only reads it.
\<close>

record World =
  popup :: "Elem option"
  body :: "Elem list"
  inline_style :: "Elem \<Rightarrow> (string \<rightharpoonup> string)"
  clientHeight :: "Elem \<Rightarrow> int"
  blurListener :: bool
  hasFocus :: bool

section \<open>DOM and library operations\<close>

text \<open>
  Decimal printing of a number, for the template string \<^verbatim>\<open>`${n}px`\<close>: an integer
  in the range of pixel coordinates prints as its decimal digits, with a minus sign when
  it is negative.
\<close>

fun digits :: "nat \<Rightarrow> string" where
  "digits n =
     (if n < 10 then [''0123456789'' ! n]
      else digits (n div 10) @ [''0123456789'' ! (n mod 10)])"

declare digits.simps [simp del]

definition numberToString :: "int \<Rightarrow> string" where
  "numberToString i = (if i < 0 then CHR ''-'' # digits (nat (- i)) else digits (nat i))"

definition px :: "int \<Rightarrow> string" where
  "px i = numberToString i @ ''px''"

text \<open>
  \<^verbatim>\<open>parent.removeChild(n)\<close> throws \<^verbatim>\<open>NotFoundError\<close> when \<open>n\<close> is not a child of the
  parent. \<^verbatim>\<open>parent.appendChild(n)\<close> moves \<open>n\<close> to the end when it is a child already.
\<close>

definition removeChild :: "Elem \<Rightarrow> Elem list \<Rightarrow> error + Elem list" where
  "removeChild n kids = (if n \<in> set kids then Inr (removeAll n kids) else Inl NotFoundError)"

definition appendChild :: "Elem \<Rightarrow> Elem list \<Rightarrow> Elem list" where
  "appendChild n kids = removeAll n kids @ [n]"

text \<open>\<^verbatim>\<open>css(element, {key: value, ...})\<close> of tui-code-snippet assigns each style property.\<close>

definition css :: "Elem \<Rightarrow> (string \<times> string) list \<Rightarrow> World \<Rightarrow> World" where
  "css n props w =
     w\<lparr>inline_style := (inline_style w)
          (n := foldl (\<lambda>m (k, v). m(k \<mapsto> v)) (inline_style w n) props)\<rparr>"

definition focus :: "World \<Rightarrow> World" where
  "focus w = w\<lparr>hasFocus := True\<rparr>"

section \<open>The plugin view \<^verbatim>\<open>PopupWidget\<close>\<close>

text \<open>
  Every method returns the exception it threw, if any, and the world as it left it: a
  JavaScript exception keeps the mutations made before it.
\<close>

definition PopupWidget_new :: "World \<Rightarrow> World" where
  "PopupWidget_new w = w\<lparr>popup := None, blurListener := True\<rparr>"

definition removeWidget :: "World \<Rightarrow> error option \<times> World" where
  "removeWidget w =
     (case popup w of
        None \<Rightarrow> (None, w)
      | Some p \<Rightarrow>
          (case removeChild p (body w) of
             Inl e \<Rightarrow> (Some e, w)
           | Inr kids \<Rightarrow> (None, w\<lparr>body := kids, popup := None\<rparr>)))"

definition update :: "EditorView \<Rightarrow> World \<Rightarrow> error option \<times> World" where
  "update view w =
     (let widget = widgetState (state view) in
      case removeWidget w of
        (Some e, w1) \<Rightarrow> (Some e, w1)
      | (None, w1) \<Rightarrow>
          (case widget of
             WidgetObj wd \<Rightarrow>
               (case coordsAtPos view (pos wd) of
                  Inl e \<Rightarrow> (Some e, w1)
                | Inr c \<Rightarrow>
                    (let height = c_bottom c - c_top c;
                         w2 = css (node wd)
                                [(''position'', ''absolute''), (''left'', px (c_left c)),
                                 (''opacity'', ''0'')] w1;
                         w3 = w2\<lparr>body := appendChild (node wd) (body w2)\<rparr>;
                         w4 = css (node wd)
                                [(''top'', px (if style wd = Bottom then c_top c + height
                                               else c_top c - clientHeight w3 (node wd) - height)),
                                 (''opacity'', ''1'')] w3;
                         w5 = w4\<lparr>popup := Some (node wd)\<rparr>
                     in (None, focus w5)))
           | _ \<Rightarrow> (None, w1)))"

definition destroy :: "World \<Rightarrow> error option \<times> World" where
  "destroy w = (None, w\<lparr>blurListener := False\<rparr>)"

text \<open>
  A \<^verbatim>\<open>blur\<close> event of \<^verbatim>\<open>view.dom\<close>: the view has lost the focus, and the listener
  runs if it is still registered.
\<close>

definition on_blur :: "World \<Rightarrow> error option \<times> World" where
  "on_blur w =
     (let w0 = w\<lparr>hasFocus := False\<rparr>
      in if blurListener w0 then removeWidget w0 else (None, w0))"

section \<open>The plugin state and the editor's \<^verbatim>\<open>addWidget\<close>\<close>

definition init :: WidgetValue where
  "init = Null"

definition getMeta :: "Transaction \<Rightarrow> string \<Rightarrow> WidgetValue" where
  "getMeta tr key = (case meta tr key of None \<Rightarrow> Undefined | Some wd \<Rightarrow> WidgetObj wd)"

definition setMeta :: "string \<Rightarrow> Widget \<Rightarrow> Transaction \<Rightarrow> Transaction" where
  "setMeta key v tr = tr\<lparr>meta := (meta tr)(key \<mapsto> v)\<rparr>"

definition apply_tr :: "Transaction \<Rightarrow> WidgetValue" where
  "apply_tr tr = getMeta tr ''widget''"

text \<open>\<^verbatim>\<open>state.tr\<close>: a fresh transaction on the state, with no metadata.\<close>

definition tr_of :: "EditorState \<Rightarrow> Transaction" where
  "tr_of st = \<lparr>tr_selection = selection st, meta = Map.empty\<rparr>"

definition applyTransaction :: "Transaction \<Rightarrow> EditorState \<Rightarrow> EditorState" where
  "applyTransaction tr st = \<lparr>selection = tr_selection tr, widgetState = apply_tr tr\<rparr>"

text \<open>
  \<^verbatim>\<open>dispatchTransaction\<close> of the editor's view: the transaction is applied to the
  state, and \<^verbatim>\<open>view.updateState\<close> then calls \<^verbatim>\<open>update\<close> of the plugin view with the
  new state.
\<close>

definition dispatch ::
  "(int \<Rightarrow> error + Coords) \<Rightarrow> Transaction \<Rightarrow> EditorState \<times> World
     \<Rightarrow> error option \<times> EditorState \<times> World" where
  "dispatch coords tr sw =
     (let st' = applyTransaction tr (fst sw);
          r = update \<lparr>state = st', coordsAtPos = coords\<rparr> (snd sw)
      in (fst r, st', snd r))"

text \<open>\<^verbatim>\<open>WysiwygEditor.addWidget(node, style, pos?)\<close>; an omitted \<open>pos\<close> is \<open>None\<close>.\<close>

definition addWidget_tr :: "Elem \<Rightarrow> WidgetStyle \<Rightarrow> int option \<Rightarrow> EditorState \<Rightarrow> Transaction" where
  "addWidget_tr n sty p st =
     setMeta ''widget''
       \<lparr>node = n, style = sty,
        pos = (case p of Some q \<Rightarrow> q | None \<Rightarrow> sel_to (selection st))\<rparr>
       (tr_of st)"

definition addWidget ::
  "(int \<Rightarrow> error + Coords) \<Rightarrow> Elem \<Rightarrow> WidgetStyle \<Rightarrow> int option \<Rightarrow> EditorState \<times> World
     \<Rightarrow> error option \<times> EditorState \<times> World" where
  "addWidget coords n sty p sw = dispatch coords (addWidget_tr n sty p (fst sw)) sw"

section \<open>Well-formed worlds and runs\<close>

text \<open>
  The children of \<^verbatim>\<open>document.body\<close> are distinct, and a widget the plugin view holds
  is one of them.
\<close>

definition wf :: "World \<Rightarrow> bool" where
  "wf w = (distinct (body w) \<and> (case popup w of None \<Rightarrow> True | Some p \<Rightarrow> p \<in> set (body w)))"

text \<open>The element a call of \<^verbatim>\<open>update\<close> with this view attaches, if it attaches one.\<close>

definition shown_by :: "EditorView \<Rightarrow> Elem option" where
  "shown_by view =
     (case widgetState (state view) of
        WidgetObj wd \<Rightarrow>
          (case coordsAtPos view (pos wd) of Inl e \<Rightarrow> None | Inr c \<Rightarrow> Some (node wd))
      | _ \<Rightarrow> None)"

text \<open>A sequence of \<^verbatim>\<open>update\<close> calls, one per view; a call that throws leaves its world.\<close>

fun updates :: "EditorView list \<Rightarrow> World \<Rightarrow> World" where
  "updates [] w = w"
| "updates (v # vs) w = updates vs (snd (update v w))"

definition inserted :: "EditorView list \<Rightarrow> Elem \<Rightarrow> bool" where
  "inserted vs x = (Some x \<in> set (map shown_by vs))"

fun destroy_times :: "nat \<Rightarrow> World \<Rightarrow> error option \<times> World" where
  "destroy_times 0 w = (None, w)"
| "destroy_times (Suc n) w =
     (case destroy w of
        (Some e, w') \<Rightarrow> (Some e, w')
      | (None, w') \<Rightarrow> destroy_times n w')"

subsection \<open>Concrete inputs\<close>

definition world0 :: World where
  "world0 = \<lparr>popup = None, body = [1, 2], inline_style = (\<lambda>_. Map.empty),
             clientHeight = (\<lambda>_. 30), blurListener = False, hasFocus = False\<rparr>"

definition coords0 :: "int \<Rightarrow> error + Coords" where
  "coords0 p = (if 0 \<le> p \<and> p \<le> 10 then Inr \<lparr>c_top = 100, c_left = 50, c_bottom = 120\<rparr>
                else Inl RangeError)"

definition state0 :: EditorState where
  "state0 = \<lparr>selection = \<lparr>sel_from = 2, sel_to = 4\<rparr>, widgetState = Null\<rparr>"

definition widgetA :: Widget where
  "widgetA = \<lparr>node = 7, style = Bottom, pos = 5\<rparr>"

definition widgetB :: Widget where
  "widgetB = \<lparr>node = 8, style = Top, pos = 3\<rparr>"

definition view_of :: "WidgetValue \<Rightarrow> EditorView" where
  "view_of v = \<lparr>state = state0\<lparr>widgetState := v\<rparr>, coordsAtPos = coords0\<rparr>"

definition shownA :: World where
  "shownA = snd (update (view_of (WidgetObj widgetA)) (PopupWidget_new world0))"

section \<open>Properties of the operations\<close>

lemma removeWidget_none: "popup w = None \<Longrightarrow> removeWidget w = (None, w)"
  by (simp add: removeWidget_def)

lemma removeWidget_some:
  "popup w = Some p \<Longrightarrow> p \<in> set (body w) \<Longrightarrow>
   removeWidget w = (None, w\<lparr>body := removeAll p (body w), popup := None\<rparr>)"
  by (simp add: removeWidget_def removeChild_def)

lemma removeWidget_wf:
  assumes "wf w"
  shows "fst (removeWidget w) = None"
    and "popup (snd (removeWidget w)) = None"
    and "wf (snd (removeWidget w))"
    and "body (snd (removeWidget w)) =
           (case popup w of None \<Rightarrow> body w | Some p \<Rightarrow> removeAll p (body w))"
    and "inline_style (snd (removeWidget w)) = inline_style w"
    and "clientHeight (snd (removeWidget w)) = clientHeight w"
    and "hasFocus (snd (removeWidget w)) = hasFocus w"
    and "blurListener (snd (removeWidget w)) = blurListener w"
  using assms
  by (auto simp: wf_def removeWidget_def removeChild_def distinct_removeAll split: option.splits)

lemma update_after_remove:
  "fst (removeWidget w) = None \<Longrightarrow> update v w = update v (snd (removeWidget w))"
proof -
  assume ok: "fst (removeWidget w) = None"
  define w1 where "w1 = snd (removeWidget w)"
  have r: "removeWidget w = (None, w1)"
    using ok by (simp add: w1_def prod_eq_iff)
  have "popup w1 = None"
    using r by (auto simp: removeWidget_def split: option.splits sum.splits)
  then have "removeWidget w1 = (None, w1)"
    by (simp add: removeWidget_def)
  then show ?thesis
    using r by (simp add: update_def w1_def [symmetric])
qed

lemma update_cleared:
  assumes "popup w = None"
  shows "popup (snd (update v w)) = shown_by v"
    and "body (snd (update v w)) =
           (case shown_by v of None \<Rightarrow> body w | Some n \<Rightarrow> removeAll n (body w) @ [n])"
  using assms
  by (auto simp: update_def removeWidget_def shown_by_def css_def focus_def appendChild_def Let_def
      split: WidgetValue.splits sum.splits)

lemma update_wf_popup: "wf w \<Longrightarrow> popup (snd (update v w)) = shown_by v"
  using update_after_remove [of w v] removeWidget_wf(1,2) [of w]
    update_cleared(1) [of "snd (removeWidget w)" v] by simp

lemma update_wf_body:
  "wf w \<Longrightarrow> body (snd (update v w)) =
     (case shown_by v of None \<Rightarrow> body (snd (removeWidget w))
      | Some n \<Rightarrow> removeAll n (body (snd (removeWidget w))) @ [n])"
  using update_after_remove [of w v] removeWidget_wf(1,2) [of w]
    update_cleared(2) [of "snd (removeWidget w)" v] by simp

lemma update_wf_wf: "wf w \<Longrightarrow> wf (snd (update v w))"
  using update_wf_popup [of w v] update_wf_body [of w v] removeWidget_wf(3) [of w]
  by (auto simp: wf_def distinct_removeAll split: option.splits)

lemma updates_snoc: "updates (vs @ [v]) w = snd (update v (updates vs w))"
  by (induction vs arbitrary: w) simp_all

lemma updates_wf: "wf w \<Longrightarrow> wf (updates vs w)"
  by (induction vs arbitrary: w) (simp_all add: update_wf_wf)

lemma updates_popup: "wf w \<Longrightarrow> vs \<noteq> [] \<Longrightarrow> popup (updates vs w) = shown_by (last vs)"
proof (induction vs rule: rev_induct)
  case Nil
  then show ?case by simp
next
  case (snoc v vs)
  then show ?case by (simp add: updates_snoc update_wf_popup updates_wf)
qed

lemma inserted_snoc: "inserted (vs @ [v]) x = (inserted vs x \<or> shown_by v = Some x)"
  by (auto simp: inserted_def)

lemma updates_body:
  assumes "wf w0" and "popup w0 = None"
  shows "body (updates vs w0) =
           filter (\<lambda>x. \<not> inserted vs x) (body w0) @
           (case popup (updates vs w0) of None \<Rightarrow> [] | Some n \<Rightarrow> [n])"
proof (induction vs rule: rev_induct)
  case Nil
  then show ?case using assms by (simp add: inserted_def)
next
  case (snoc v vs)
  let ?w = "updates vs w0"
  let ?base = "filter (\<lambda>x. \<not> inserted vs x) (body w0)"
  have wfw: "wf ?w" using assms(1) by (rule updates_wf)
  have cleared: "body (snd (removeWidget ?w)) = ?base"
  proof (cases "popup ?w")
    case None
    then show ?thesis using snoc removeWidget_wf(4) [OF wfw] by simp
  next
    case (Some p)
    have "distinct (body ?w)" using wfw by (simp add: wf_def)
    then have "p \<notin> set ?base" using snoc Some by simp
    then show ?thesis using snoc Some removeWidget_wf(4) [OF wfw] by simp
  qed
  have pop: "popup (updates (vs @ [v]) w0) = shown_by v"
    by (simp add: updates_snoc update_wf_popup wfw)
  show ?case
  proof (cases "shown_by v")
    case None
    then show ?thesis
      using pop cleared update_wf_body [OF wfw, of v]
      by (simp add: updates_snoc inserted_snoc)
  next
    case (Some n)
    have "removeAll n ?base = filter (\<lambda>x. \<not> inserted (vs @ [v]) x) (body w0)"
      by (auto simp: removeAll_filter_not_eq inserted_snoc Some intro: filter_cong)
    then show ?thesis
      using pop cleared update_wf_body [OF wfw, of v] Some
      by (simp add: updates_snoc)
  qed
qed

lemma update_obj_cleared:
  assumes "popup w = None" and "widgetState (state view) = WidgetObj wd"
    and "coordsAtPos view (pos wd) = Inr c"
  shows "update view w =
    (None, focus (css (node wd)
       [(''top'', px (if style wd = Bottom then c_top c + (c_bottom c - c_top c)
                      else c_top c - clientHeight w (node wd) - (c_bottom c - c_top c))),
        (''opacity'', ''1'')]
       ((css (node wd)
          [(''position'', ''absolute''), (''left'', px (c_left c)), (''opacity'', ''0'')] w)
        \<lparr>body := appendChild (node wd) (body w)\<rparr>)
       \<lparr>popup := Some (node wd)\<rparr>))"
  using assms by (simp add: update_def removeWidget_def css_def Let_def)

lemma update_top_style:
  assumes "wf w" and "widgetState (state view) = WidgetObj wd"
    and "coordsAtPos view (pos wd) = Inr c"
  shows "fst (update view w) = None"
    and "inline_style (snd (update view w)) (node wd) ''top'' =
      Some (px (if style wd = Bottom then c_top c + (c_bottom c - c_top c)
                else c_top c - clientHeight w (node wd) - (c_bottom c - c_top c)))"
    and "hasFocus (snd (update view w))"
proof -
  let ?w1 = "snd (removeWidget w)"
  have eq: "update view w = update view ?w1"
    using assms(1) by (simp add: update_after_remove removeWidget_wf(1))
  have p: "popup ?w1 = None" using assms(1) by (rule removeWidget_wf(2))
  have h: "clientHeight ?w1 = clientHeight w" using assms(1) by (rule removeWidget_wf(6))
  note u = update_obj_cleared [OF p assms(2,3)]
  show "fst (update view w) = None" by (simp add: eq u)
  show "inline_style (snd (update view w)) (node wd) ''top'' =
      Some (px (if style wd = Bottom then c_top c + (c_bottom c - c_top c)
                else c_top c - clientHeight w (node wd) - (c_bottom c - c_top c)))"
    by (simp add: eq u h css_def focus_def)
  show "hasFocus (snd (update view w))" by (simp add: eq u focus_def css_def)
qed

lemma update_falsy:
  assumes "widgetState (state view) = Null \<or> widgetState (state view) = Undefined"
  shows "update view w = removeWidget w"
  using assms by (auto simp: update_def split: prod.splits option.splits)



lemma wf_new_world0: "wf (PopupWidget_new world0)"
  by (simp add: wf_def PopupWidget_new_def world0_def)

lemma shownA_eq:
  "shownA = \<lparr>popup = Some 7, body = [1, 2, 7],
     inline_style = (\<lambda>_. Map.empty)
       (7 := [''position'' \<mapsto> ''absolute'', ''left'' \<mapsto> ''50px'', ''opacity'' \<mapsto> ''1'',
              ''top'' \<mapsto> ''120px'']),
     clientHeight = (\<lambda>_. 30), blurListener = True, hasFocus = True\<rparr>"
  by (simp add: shownA_def update_def removeWidget_def PopupWidget_new_def world0_def
      view_of_def widgetA_def coords0_def css_def focus_def appendChild_def state0_def
      px_def numberToString_def digits.simps fun_upd_twist)

lemma wf_shownA: "wf shownA"
  by (simp add: shownA_eq wf_def)

section \<open>The claims\<close>

text \<open>
  C1 (as amended). \<^verbatim>\<open>destroy\<close> (teardown) never throws and removes the \<^verbatim>\<open>blur\<close>
  listener, and that is all it does: the field \<^verbatim>\<open>popup\<close> and the children of
  \<^verbatim>\<open>document.body\<close> are as before, so a widget that was attached stays attached; a later
  \<^verbatim>\<open>blur\<close> no longer removes it.
\<close>

theorem teardown_removes_hook_only:
  "destroy w = (None, w\<lparr>blurListener := False\<rparr>) \<and>
   \<not> blurListener (snd (destroy w)) \<and>
   popup (snd (destroy w)) = popup w \<and>
   body (snd (destroy w)) = body w \<and>
   on_blur (snd (destroy w)) = (None, w\<lparr>blurListener := False, hasFocus := False\<rparr>)"
  by (simp add: destroy_def on_blur_def)

theorem teardown_removes_hook_only_witness:
  "blurListener shownA \<and> \<not> blurListener (snd (destroy shownA)) \<and>
   popup (snd (destroy shownA)) = Some 7 \<and> body (snd (destroy shownA)) = [1, 2, 7]"
  using teardown_removes_hook_only [of shownA] by (simp add: shownA_eq)

text \<open>
  C1 as the spec states it fails: after a widget with node \<open>7\<close> was shown, \<^verbatim>\<open>destroy\<close>
  leaves \<^verbatim>\<open>popup\<close> set and node \<open>7\<close> among the children of \<^verbatim>\<open>document.body\<close>.
\<close>

theorem teardown_keeps_widget_counterexample:
  "popup shownA = Some 7 \<and> 7 \<in> set (body shownA) \<and>
   \<not> (popup (snd (destroy shownA)) = None \<and> 7 \<notin> set (body (snd (destroy shownA))))"
  by (simp add: shownA_eq destroy_def)

text \<open>
  C2. Start from a plugin view that holds no widget, and run any sequence of \<^verbatim>\<open>update\<close>
  calls. The children of \<^verbatim>\<open>document.body\<close> are then the initial children that no call
  attached, followed by the element the plugin view holds, if it holds one: of all the
  elements the calls attached, at most one is a child, and it is the current \<^verbatim>\<open>popup\<close>.
  After a non-empty sequence \<^verbatim>\<open>popup\<close> is the element of the last call when that call
  carried a widget (and its position resolved), and there is none otherwise. Every further
  \<^verbatim>\<open>update\<close> first removes the widget held, without an exception, and goes on from the
  world without it.
\<close>

theorem single_widget_invariant:
  assumes "wf w0" and "popup w0 = None"
  shows "distinct (body (updates vs w0)) \<and>
    body (updates vs w0) =
      filter (\<lambda>x. \<not> inserted vs x) (body w0) @
      (case popup (updates vs w0) of None \<Rightarrow> [] | Some n \<Rightarrow> [n]) \<and>
    (\<forall>x \<in> set (body (updates vs w0)). inserted vs x \<longrightarrow> popup (updates vs w0) = Some x) \<and>
    (vs \<noteq> [] \<longrightarrow> popup (updates vs w0) = shown_by (last vs)) \<and>
    (\<forall>v. fst (removeWidget (updates vs w0)) = None \<and>
         popup (snd (removeWidget (updates vs w0))) = None \<and>
         update v (updates vs w0) = update v (snd (removeWidget (updates vs w0))))"
proof -
  let ?w = "updates vs w0"
  have wfw: "wf ?w" using assms(1) by (rule updates_wf)
  have d: "distinct (body ?w)" using wfw by (simp add: wf_def)
  have b: "body ?w = filter (\<lambda>x. \<not> inserted vs x) (body w0) @
      (case popup ?w of None \<Rightarrow> [] | Some n \<Rightarrow> [n])"
    using assms by (rule updates_body)
  have one: "\<forall>x \<in> set (body ?w). inserted vs x \<longrightarrow> popup ?w = Some x"
  proof (intro ballI impI)
    fix x assume "x \<in> set (body ?w)" and ins: "inserted vs x"
    then have "x \<in> set (filter (\<lambda>x. \<not> inserted vs x) (body w0) @
      (case popup ?w of None \<Rightarrow> [] | Some n \<Rightarrow> [n]))" using b by simp
    then show "popup ?w = Some x" using ins by (auto split: option.splits)
  qed
  have l: "vs \<noteq> [] \<longrightarrow> popup ?w = shown_by (last vs)"
    using assms(1) by (simp add: updates_popup)
  have t: "\<forall>v. fst (removeWidget ?w) = None \<and> popup (snd (removeWidget ?w)) = None \<and>
         update v ?w = update v (snd (removeWidget ?w))"
    using removeWidget_wf(1,2) [OF wfw] by (simp add: update_after_remove)
  from d b one l t show ?thesis by blast
qed

theorem single_widget_invariant_witness:
  "wf (PopupWidget_new world0) \<and> popup (PopupWidget_new world0) = None \<and>
   body (updates [view_of (WidgetObj widgetA), view_of Null, view_of (WidgetObj widgetB)]
          (PopupWidget_new world0)) = [1, 2, 8] \<and>
   popup (updates [view_of (WidgetObj widgetA), view_of Null, view_of (WidgetObj widgetB)]
           (PopupWidget_new world0)) = Some 8"
proof -
  let ?vs = "[view_of (WidgetObj widgetA), view_of Null, view_of (WidgetObj widgetB)]"
  have h1: "wf (PopupWidget_new world0)" by (rule wf_new_world0)
  have h2: "popup (PopupWidget_new world0) = None" by (simp add: PopupWidget_new_def)
  have sA: "shown_by (view_of (WidgetObj widgetA)) = Some 7"
    by (simp add: shown_by_def view_of_def widgetA_def coords0_def)
  have sN: "shown_by (view_of Null) = None"
    by (simp add: shown_by_def view_of_def)
  have sB: "shown_by (view_of (WidgetObj widgetB)) = Some 8"
    by (simp add: shown_by_def view_of_def widgetB_def coords0_def)
  have b0: "body (PopupWidget_new world0) = [1, 2]"
    by (simp add: PopupWidget_new_def world0_def)
  show ?thesis
    using single_widget_invariant [OF h1 h2, of ?vs] h1 h2
    by (simp add: sA sN sB b0 inserted_def)
qed





text \<open>
  C5. An \<^verbatim>\<open>update\<close> whose plugin state holds no widget, in a world where the widget \<open>p\<close>
  is shown, removes \<open>p\<close> from \<^verbatim>\<open>document.body\<close> and clears \<^verbatim>\<open>popup\<close>; it changes
  nothing else: no style is set and the focus is as before.
\<close>

theorem clear_on_none:
  assumes "wf w" and "popup w = Some p"
    and "widgetState (state view) = Null \<or> widgetState (state view) = Undefined"
  shows "update view w = (None, w\<lparr>body := removeAll p (body w), popup := None\<rparr>) \<and>
    p \<notin> set (body (snd (update view w))) \<and>
    popup (snd (update view w)) = None \<and>
    inline_style (snd (update view w)) = inline_style w \<and>
    hasFocus (snd (update view w)) = hasFocus w"
proof -
  have "p \<in> set (body w)" using assms(1,2) by (simp add: wf_def)
  then have "removeWidget w = (None, w\<lparr>body := removeAll p (body w), popup := None\<rparr>)"
    using assms(2) by (rule removeWidget_some [rotated])
  then show ?thesis using update_falsy [OF assms(3), of w] by simp
qed

theorem clear_on_none_witness:
  "wf shownA \<and> popup shownA = Some 7 \<and> widgetState (state (view_of Null)) = Null \<and>
   fst (update (view_of Null) shownA) = None \<and>
   body (snd (update (view_of Null) shownA)) = [1, 2] \<and>
   popup (snd (update (view_of Null) shownA)) = None \<and>
   hasFocus (snd (update (view_of Null) shownA))"
proof -
  have h1: "wf shownA" by (rule wf_shownA)
  have h2: "popup shownA = Some 7" by (simp add: shownA_eq)
  have h3: "widgetState (state (view_of Null)) = Null \<or>
    widgetState (state (view_of Null)) = Undefined"
    by (simp add: view_of_def)
  show ?thesis
    using clear_on_none [OF h1 h2 h3] h1 h2 by (simp add: shownA_eq view_of_def)
qed

text \<open>
  C6. \<^verbatim>\<open>removeWidget\<close>, the \<^verbatim>\<open>blur\<close> listener: with no widget held it returns
  without an exception and leaves the world as it is; with the widget \<open>p\<close> shown it removes
  \<open>p\<close> from \<^verbatim>\<open>document.body\<close> and clears \<^verbatim>\<open>popup\<close>; a second call right after the
  first changes nothing more.
\<close>

theorem focus_lost_idempotent:
  "(popup w = None \<longrightarrow> removeWidget w = (None, w)) \<and>
   (wf w \<and> popup w = Some p \<longrightarrow>
      removeWidget w = (None, w\<lparr>body := removeAll p (body w), popup := None\<rparr>) \<and>
      p \<notin> set (body (snd (removeWidget w)))) \<and>
   (wf w \<longrightarrow> removeWidget (snd (removeWidget w)) = (None, snd (removeWidget w))) \<and>
   snd (removeWidget (snd (removeWidget w))) = snd (removeWidget w)"
proof -
  have a: "popup w = None \<longrightarrow> removeWidget w = (None, w)"
    by (simp add: removeWidget_none)
  have b: "wf w \<and> popup w = Some p \<longrightarrow>
      removeWidget w = (None, w\<lparr>body := removeAll p (body w), popup := None\<rparr>) \<and>
      p \<notin> set (body (snd (removeWidget w)))"
    by (auto simp: wf_def removeWidget_some)
  have c: "wf w \<longrightarrow> removeWidget (snd (removeWidget w)) = (None, snd (removeWidget w))"
    using removeWidget_wf(2) [of w] by (auto simp: removeWidget_none)
  have d: "snd (removeWidget (snd (removeWidget w))) = snd (removeWidget w)"
    by (auto simp: removeWidget_def removeChild_def split: option.splits)
  from a b c d show ?thesis by blast
qed

theorem focus_lost_idempotent_witness:
  "wf shownA \<and> popup shownA = Some 7 \<and>
   fst (removeWidget shownA) = None \<and>
   body (snd (removeWidget shownA)) = [1, 2] \<and>
   popup (snd (removeWidget shownA)) = None \<and>
   removeWidget (snd (removeWidget shownA)) = (None, snd (removeWidget shownA))"
proof -
  have h1: "wf shownA" by (rule wf_shownA)
  have h2: "popup shownA = Some 7" by (simp add: shownA_eq)
  have b: "body shownA = [1, 2, 7]" by (simp add: shownA_eq)
  note t = focus_lost_idempotent [of shownA 7]
  from t h1 h2
  have r: "removeWidget shownA =
    (None, shownA\<lparr>body := removeAll 7 (body shownA), popup := None\<rparr>)"
    by blast
  from t h1
  have i: "removeWidget (snd (removeWidget shownA)) = (None, snd (removeWidget shownA))"
    by blast
  show ?thesis
    using h1 h2 i by (simp add: r b)
qed

text \<open>
  C7. \<^verbatim>\<open>destroy\<close> throws no exception in any world: not when called once, not when
  called \<open>n\<close> times in a row, not after another \<^verbatim>\<open>destroy\<close>, and not after the widget
  was removed by \<^verbatim>\<open>removeWidget\<close> or replaced by \<^verbatim>\<open>update\<close>.
\<close>

theorem teardown_never_fails:
  "fst (destroy w) = None \<and>
   fst (destroy_times n w) = None \<and>
   fst (destroy (snd (destroy w))) = None \<and>
   fst (destroy (snd (removeWidget w))) = None \<and>
   fst (destroy (snd (update view w))) = None"
proof -
  have "fst (destroy_times n w) = None"
    by (induction n arbitrary: w) (simp_all add: destroy_def)
  then show ?thesis by (simp add: destroy_def)
qed

theorem teardown_never_fails_witness:
  "fst (destroy shownA) = None \<and> fst (destroy_times 3 shownA) = None \<and>
   fst (destroy (snd (destroy shownA))) = None"
  using teardown_never_fails [of shownA 3] by simp

text \<open>
  C8. An \<^verbatim>\<open>update\<close> that attaches a widget ends with \<^verbatim>\<open>view.focus()\<close>: its result is
  \<open>focus\<close> of a world that holds the widget's node, so the view has the focus afterwards.
  An \<^verbatim>\<open>update\<close> whose plugin state holds no widget leaves the focus as it was.
\<close>

theorem focus_returned_to_host:
  assumes "wf w"
  shows "(widgetState (state view) = WidgetObj wd \<and> coordsAtPos view (pos wd) = Inr c \<longrightarrow>
       (\<exists>w'. update view w = (None, focus w') \<and> popup w' = Some (node wd)) \<and>
       hasFocus (snd (update view w))) \<and>
    (widgetState (state view) = Null \<or> widgetState (state view) = Undefined \<longrightarrow>
       hasFocus (snd (update view w)) = hasFocus w)"
proof (intro conjI impI)
  assume a: "widgetState (state view) = WidgetObj wd \<and> coordsAtPos view (pos wd) = Inr c"
  let ?w1 = "snd (removeWidget w)"
  have eq: "update view w = update view ?w1"
    using assms by (simp add: update_after_remove removeWidget_wf(1))
  have p: "popup ?w1 = None" using assms by (rule removeWidget_wf(2))
  show "\<exists>w'. update view w = (None, focus w') \<and> popup w' = Some (node wd)"
    using update_obj_cleared [OF p, of view wd c] a eq by (intro exI conjI) (simp, simp add: css_def)
  show "hasFocus (snd (update view w))"
    using update_top_style(3) [OF assms, of view wd c] a by simp
next
  assume "widgetState (state view) = Null \<or> widgetState (state view) = Undefined"
  then have "update view w = removeWidget w" by (rule update_falsy)
  then show "hasFocus (snd (update view w)) = hasFocus w"
    using removeWidget_wf(7) [OF assms] by simp
qed

theorem focus_returned_to_host_witness:
  "wf (PopupWidget_new world0) \<and> \<not> hasFocus (PopupWidget_new world0) \<and>
   widgetState (state (view_of (WidgetObj widgetA))) = WidgetObj widgetA \<and>
   coordsAtPos (view_of (WidgetObj widgetA)) (pos widgetA) =
     Inr \<lparr>c_top = 100, c_left = 50, c_bottom = 120\<rparr> \<and>
   hasFocus (snd (update (view_of (WidgetObj widgetA)) (PopupWidget_new world0))) \<and>
   widgetState (state (view_of Undefined)) = Undefined \<and>
   \<not> hasFocus (snd (update (view_of Undefined) (PopupWidget_new world0)))"
proof -
  let ?c = "\<lparr>c_top = 100, c_left = 50, c_bottom = 120\<rparr>"
  have h1: "wf (PopupWidget_new world0)" by (rule wf_new_world0)
  have h2: "widgetState (state (view_of (WidgetObj widgetA))) = WidgetObj widgetA"
    by (simp add: view_of_def)
  have h3: "coordsAtPos (view_of (WidgetObj widgetA)) (pos widgetA) = Inr ?c"
    by (simp add: view_of_def widgetA_def coords0_def)
  have h4: "widgetState (state (view_of Undefined)) = Undefined"
    by (simp add: view_of_def)
  have f: "\<not> hasFocus (PopupWidget_new world0)"
    by (simp add: PopupWidget_new_def world0_def)
  show ?thesis
    using focus_returned_to_host [OF h1, of "view_of (WidgetObj widgetA)" widgetA ?c]
      focus_returned_to_host [OF h1, of "view_of Undefined" widgetA ?c] h1 h2 h3 h4 f
    by simp
qed

text \<open>
  C9. The plugin state starts as \<^verbatim>\<open>null\<close>. Applying a transaction makes it the
  transaction's \<^verbatim>\<open>widget\<close> metadata, whatever the state was before: a transaction
  without that metadata leaves no widget requested, and dispatching it while the widget
  \<open>p\<close> is shown removes \<open>p\<close> from \<^verbatim>\<open>document.body\<close> and clears \<^verbatim>\<open>popup\<close>.
\<close>

theorem plugin_state_is_transient:
  "init = Null \<and>
   apply_tr tr = getMeta tr ''widget'' \<and>
   widgetState (applyTransaction tr st) = getMeta tr ''widget'' \<and>
   (meta tr ''widget'' = None \<longrightarrow> widgetState (applyTransaction tr st) = Undefined) \<and>
   (meta tr ''widget'' = Some wd \<longrightarrow> widgetState (applyTransaction tr st) = WidgetObj wd) \<and>
   (wf w \<and> popup w = Some p \<and> meta tr ''widget'' = None \<longrightarrow>
      dispatch coords tr (st, w) =
        (None, applyTransaction tr st, w\<lparr>body := removeAll p (body w), popup := None\<rparr>))"
proof -
  have "wf w \<and> popup w = Some p \<and> meta tr ''widget'' = None \<longrightarrow>
      dispatch coords tr (st, w) =
        (None, applyTransaction tr st, w\<lparr>body := removeAll p (body w), popup := None\<rparr>)"
  proof
    assume a: "wf w \<and> popup w = Some p \<and> meta tr ''widget'' = None"
    let ?v = "\<lparr>state = applyTransaction tr st, coordsAtPos = coords\<rparr>"
    have "widgetState (state ?v) = Null \<or> widgetState (state ?v) = Undefined"
      using a by (simp add: applyTransaction_def apply_tr_def getMeta_def)
    then have "update ?v w = removeWidget w" by (rule update_falsy)
    moreover have "removeWidget w = (None, w\<lparr>body := removeAll p (body w), popup := None\<rparr>)"
      using a by (auto simp: wf_def removeWidget_some)
    ultimately show "dispatch coords tr (st, w) =
        (None, applyTransaction tr st, w\<lparr>body := removeAll p (body w), popup := None\<rparr>)"
      by (simp add: dispatch_def Let_def)
  qed
  then show ?thesis
    by (simp add: init_def apply_tr_def applyTransaction_def getMeta_def)
qed

theorem plugin_state_is_transient_witness:
  "wf shownA \<and> popup shownA = Some 7 \<and> meta (tr_of state0) ''widget'' = None \<and>
   widgetState (applyTransaction (tr_of state0) (state0\<lparr>widgetState := WidgetObj widgetA\<rparr>)) =
     Undefined \<and>
   fst (dispatch coords0 (tr_of state0) (state0\<lparr>widgetState := WidgetObj widgetA\<rparr>, shownA)) =
     None \<and>
   body (snd (snd (dispatch coords0 (tr_of state0)
     (state0\<lparr>widgetState := WidgetObj widgetA\<rparr>, shownA)))) = [1, 2] \<and>
   popup (snd (snd (dispatch coords0 (tr_of state0)
     (state0\<lparr>widgetState := WidgetObj widgetA\<rparr>, shownA)))) = None"
proof -
  have h1: "wf shownA" by (rule wf_shownA)
  have h2: "popup shownA = Some 7" by (simp add: shownA_eq)
  have h3: "meta (tr_of state0) ''widget'' = None" by (simp add: tr_of_def)
  have b: "body shownA = [1, 2, 7]" by (simp add: shownA_eq)
  let ?st = "state0\<lparr>widgetState := WidgetObj widgetA\<rparr>"
  note t = plugin_state_is_transient [of "tr_of state0" ?st widgetA shownA 7 coords0]
  from t h3 have a: "widgetState (applyTransaction (tr_of state0) ?st) = Undefined"
    by blast
  from t h1 h2 h3
  have d: "dispatch coords0 (tr_of state0) (?st, shownA) =
    (None, applyTransaction (tr_of state0) ?st,
     shownA\<lparr>body := removeAll 7 (body shownA), popup := None\<rparr>)"
    by blast
  show ?thesis
    using h1 h2 h3 a by (simp add: d b)
qed

text \<open>
  C10. The transaction that \<^verbatim>\<open>addWidget(node, style, pos)\<close> dispatches carries, under
  \<^verbatim>\<open>widget\<close>, the node, the style and the position \<open>pos\<close> when one is given, and the
  end \<^verbatim>\<open>to\<close> of the current selection when it is omitted; the plugin state after the
  dispatch is that widget.
\<close>

theorem addWidget_anchor_position:
  "meta (addWidget_tr n sty (Some q) st) ''widget'' = Some \<lparr>node = n, style = sty, pos = q\<rparr> \<and>
   meta (addWidget_tr n sty None st) ''widget'' =
     Some \<lparr>node = n, style = sty, pos = sel_to (selection st)\<rparr> \<and>
   widgetState (fst (snd (addWidget coords n sty (Some q) (st, w)))) =
     WidgetObj \<lparr>node = n, style = sty, pos = q\<rparr> \<and>
   widgetState (fst (snd (addWidget coords n sty None (st, w)))) =
     WidgetObj \<lparr>node = n, style = sty, pos = sel_to (selection st)\<rparr>"
  by (simp add: addWidget_def addWidget_tr_def setMeta_def tr_of_def dispatch_def
      applyTransaction_def apply_tr_def getMeta_def Let_def)

theorem addWidget_anchor_position_witness:
  "meta (addWidget_tr 7 Bottom (Some 0) state0) ''widget'' =
     Some \<lparr>node = 7, style = Bottom, pos = 0\<rparr> \<and>
   meta (addWidget_tr 7 Bottom None state0) ''widget'' =
     Some \<lparr>node = 7, style = Bottom, pos = 4\<rparr>"
  using addWidget_anchor_position [of 7 Bottom 0 state0 coords0 world0]
  by (simp add: state0_def)

end
